theory Spec2Isabelle
  imports Main "HOL-Library.Multiset"
begin

section \<open>The prompt catalogs: podcast_prompts.py and monologue_prompts.py\<close>

subsection \<open>Python values the two modules use\<close>

text \<open>
  The exceptions the two modules raise. \<open>KeyError\<close> carries the missing key (raised by
  the subscript \<open>TEMPLATES[name]\<close>), \<open>AttributeError\<close> carries the message that
  \<open>__getattr__\<close> formats.
\<close>

datatype py_error = KeyError string | AttributeError string

text \<open>
  The module-level string constants. Each one is several dozen lines of prompt text; the
  lookups never inspect the text, so a constant is represented by its identifier.
\<close>

datatype podcast_str =
    PODCAST_SUMMARY_PROMPT_STR
  | PODCAST_MULTI_PDF_OUTLINE_PROMPT_STR
  | PODCAST_MULTI_PDF_STRUCUTRED_OUTLINE_PROMPT_STR
  | PODCAST_PROMPT_WITH_REFERENCES_STR
  | PODCAST_PROMPT_NO_REFERENCES_STR
  | PODCAST_TRANSCRIPT_TO_DIALOGUE_PROMPT_STR
  | PODCAST_COMBINE_DIALOGUES_PROMPT_STR
  | PODCAST_DIALOGUE_PROMPT_STR

datatype monologue_str =
    MONOLOGUE_SUMMARY_PROMPT_STR
  | MONOLOGUE_MULTI_DOC_SYNTHESIS_PROMPT_STR
  | MONOLOGUE_TRANSCRIPT_PROMPT_STR
  | MONOLOGUE_DIALOGUE_PROMPT_STR

text \<open>\<open>jinja2.Template(s)\<close>: the compiled template object built from the string \<open>s\<close>.\<close>

datatype 's template = Template 's

text \<open>
  A Python \<open>dict\<close> with string keys, as the list of its items in insertion order.
  \<open>py_in\<close> is the test \<open>name in d\<close>, \<open>py_getitem\<close> is the subscript \<open>d[name]\<close>,
  which raises \<open>KeyError\<close> on a missing key.
\<close>

type_synonym 'v py_dict = "(string \<times> 'v) list"

definition py_in :: "string \<Rightarrow> 'v py_dict \<Rightarrow> bool" where
  "py_in name d = (map_of d name \<noteq> None)"

definition py_getitem :: "'v py_dict \<Rightarrow> string \<Rightarrow> py_error + 'v" where
  "py_getitem d name = (case map_of d name of None \<Rightarrow> Inl (KeyError name) | Some v \<Rightarrow> Inr v)"

definition py_keys :: "'v py_dict \<Rightarrow> string set" where
  "py_keys d = fst ` set d"

subsection \<open>Module globals\<close>

text \<open>
  Both modules bind the same two global names. The methods read them when they are called,
  so they are passed as the state of the module.
\<close>

record 's module_globals =
  PROMPT_TEMPLATES :: "'s py_dict"
  TEMPLATES :: "'s template py_dict"

text \<open>
  The dict comprehension
  \<^verbatim>\<open>{name: jinja2.Template(template) for name, template in PROMPT_TEMPLATES.items()}\<close>.
\<close>

definition compile_templates :: "'s py_dict \<Rightarrow> 's template py_dict" where
  "compile_templates d = map (\<lambda>(name, template). (name, Template template)) d"

definition podcast_PROMPT_TEMPLATES :: "podcast_str py_dict" where
  "podcast_PROMPT_TEMPLATES =
    [(''podcast_summary_prompt'', PODCAST_SUMMARY_PROMPT_STR),
     (''podcast_multi_pdf_outline_prompt'', PODCAST_MULTI_PDF_OUTLINE_PROMPT_STR),
     (''podcast_multi_pdf_structured_outline_prompt'',
        PODCAST_MULTI_PDF_STRUCUTRED_OUTLINE_PROMPT_STR),
     (''podcast_prompt_with_references'', PODCAST_PROMPT_WITH_REFERENCES_STR),
     (''podcast_prompt_no_references'', PODCAST_PROMPT_NO_REFERENCES_STR),
     (''podcast_transcript_to_dialogue_prompt'', PODCAST_TRANSCRIPT_TO_DIALOGUE_PROMPT_STR),
     (''podcast_combine_dialogues_prompt'', PODCAST_COMBINE_DIALOGUES_PROMPT_STR),
     (''podcast_dialogue_prompt'', PODCAST_DIALOGUE_PROMPT_STR)]"

definition monologue_PROMPT_TEMPLATES :: "monologue_str py_dict" where
  "monologue_PROMPT_TEMPLATES =
    [(''monologue_summary_prompt'', MONOLOGUE_SUMMARY_PROMPT_STR),
     (''monologue_multi_doc_synthesis_prompt'', MONOLOGUE_MULTI_DOC_SYNTHESIS_PROMPT_STR),
     (''monologue_transcript_prompt'', MONOLOGUE_TRANSCRIPT_PROMPT_STR),
     (''monologue_dialogue_prompt'', MONOLOGUE_DIALOGUE_PROMPT_STR)]"

text \<open>The globals of each module once its top-level statements have run.\<close>

definition podcast_prompts :: "podcast_str module_globals" where
  "podcast_prompts =
    \<lparr>PROMPT_TEMPLATES = podcast_PROMPT_TEMPLATES,
     TEMPLATES = compile_templates podcast_PROMPT_TEMPLATES\<rparr>"

definition monologue_prompts :: "monologue_str module_globals" where
  "monologue_prompts =
    \<lparr>PROMPT_TEMPLATES = monologue_PROMPT_TEMPLATES,
     TEMPLATES = compile_templates monologue_PROMPT_TEMPLATES\<rparr>"

subsection \<open>The classes PodcastPrompts and FinancialSummaryPrompts\<close>

text \<open>
  The message \<^verbatim>\<open>f"'{self.__class__.__name__}' has no attribute '{name}'"\<close>; \<open>cls\<close> is
  \<open>self.__class__.__name__\<close>.
\<close>

definition quoted :: "string \<Rightarrow> string" where
  "quoted s = CHR 0x27 # s @ [CHR 0x27]"

definition no_attribute_message :: "string \<Rightarrow> string \<Rightarrow> string" where
  "no_attribute_message cls name = quoted cls @ '' has no attribute '' @ quoted name"

text \<open>
  \<open>__getattr__\<close> and \<open>get_template\<close>. The two classes have the same method bodies; each
  reads the globals of its own module. A method returns its result together with the
  globals it leaves behind.
\<close>

definition dunder_getattr ::
  "string \<Rightarrow> 's module_globals \<Rightarrow> string \<Rightarrow> (py_error + 's) \<times> 's module_globals" where
  "dunder_getattr cls g name =
     (if py_in name (PROMPT_TEMPLATES g)
      then (py_getitem (PROMPT_TEMPLATES g) name, g)
      else (Inl (AttributeError (no_attribute_message cls name)), g))"

definition get_template ::
  "'s module_globals \<Rightarrow> string \<Rightarrow> (py_error + 's template) \<times> 's module_globals" where
  "get_template g name = (py_getitem (TEMPLATES g) name, g)"

text \<open>
  Attribute access \<open>obj.name\<close> on an instance. Python calls \<open>__getattr__\<close> only when the
  default lookup finds nothing: the names the class body binds with \<open>def\<close> (the two
  methods) and the names Python supplies on every object (\<open>__class__\<close>, which
  \<open>__getattr__\<close> itself reads, \<open>__doc__\<close>, \<open>__init__\<close>, ...) are resolved before it
  and never reach the method. The list of the supplied names belongs to the language, not
  to the two modules, and is the parameter \<open>inherited\<close>. \<open>Ordinary name\<close> stands for
  whatever the default lookup returns for \<open>name\<close>.
\<close>

definition class_body :: "string list" where
  "class_body = [''__getattr__'', ''get_template'']"

datatype 's attribute = Prompt 's | Ordinary string

definition attribute_access ::
  "string list \<Rightarrow> string \<Rightarrow> 's module_globals \<Rightarrow> string
     \<Rightarrow> (py_error + 's attribute) \<times> 's module_globals" where
  "attribute_access inherited cls g name =
     (if name \<in> set class_body \<or> name \<in> set inherited
      then (Inr (Ordinary name), g)
      else (case dunder_getattr cls g name of
              (Inl e, g') \<Rightarrow> (Inl e, g')
            | (Inr s, g') \<Rightarrow> (Inr (Prompt s), g')))"

text \<open>A lookup request, and a client that issues a sequence of them on one module.\<close>

datatype lookup = Attr string | GetTemplate string

datatype 's found = FoundAttribute "'s attribute" | FoundTemplate "'s template"

definition do_lookup ::
  "string list \<Rightarrow> string \<Rightarrow> 's module_globals \<Rightarrow> lookup
     \<Rightarrow> (py_error + 's found) \<times> 's module_globals" where
  "do_lookup inherited cls g l =
     (case l of
        Attr name \<Rightarrow>
          (case attribute_access inherited cls g name of
             (Inl e, g') \<Rightarrow> (Inl e, g')
           | (Inr a, g') \<Rightarrow> (Inr (FoundAttribute a), g'))
      | GetTemplate name \<Rightarrow>
          (case get_template g name of
             (Inl e, g') \<Rightarrow> (Inl e, g')
           | (Inr t, g') \<Rightarrow> (Inr (FoundTemplate t), g')))"

fun do_lookups ::
  "string list \<Rightarrow> string \<Rightarrow> 's module_globals \<Rightarrow> lookup list
     \<Rightarrow> (py_error + 's found) list \<times> 's module_globals" where
  "do_lookups inherited cls g [] = ([], g)"
| "do_lookups inherited cls g (l # ls) =
     (case do_lookup inherited cls g l of
        (r, g') \<Rightarrow> (case do_lookups inherited cls g' ls of (rs, g'') \<Rightarrow> (r # rs, g'')))"


section \<open>The LLM query manager\<close>

text \<open>
  test_llmmanager.py drives \<open>LLMManager\<close>, imported from \<open>shared.llmmanager\<close>, a module
  outside the verified sources. The definitions of this section are written from the
  specification, section by section. Backoff delays, telemetry spans and the scheduling
  of the asynchronous modes are outside this model.
\<close>

subsection \<open>Data model\<close>

text \<open>
  Modelled from the spec: the error taxonomy of the missing manager (section 7).
  \<open>ClientError\<close> stands for the 4xx-equivalent client error of section 4.3, for which the
  taxonomy gives no name.
\<close>

datatype manager_error =
    UnknownModelError
  | TransientBackendError
  | ClientError
  | SchemaViolationError
  | StreamOrderingError

text \<open>Modelled from the spec: the ModelEndpoint of the missing Model Registry (section 3).\<close>

record ModelEndpoint =
  model_key :: string
  backend_url :: string
  model_id :: string
  default_params :: "(string \<times> string) list"

text \<open>Modelled from the spec: the StreamChunk of the missing streaming executor (section 3).\<close>

record StreamChunk =
  sequence_index :: int
  delta :: string
  is_final :: bool

text \<open>
  Modelled from the spec: the QueryResult of the missing manager (section 3), a plain text
  or, when a schema was given, a structured value.
\<close>

datatype 'j QueryResult = Text string | Structured 'j

text \<open>Modelled from the spec: the four execution modes of the missing facade (section 4.3).\<close>

datatype mode = Sync | Async | StreamSync | StreamAsync

text \<open>
  Modelled from the spec: which modes of the missing facade ask the backend for a stream
  (section 4.3).
\<close>

definition streaming :: "mode \<Rightarrow> bool" where
  "streaming m = (m = StreamSync \<or> m = StreamAsync)"

text \<open>
  Modelled from the spec: the outbound request of the missing Request Executor (section 6):
  model id, messages (role and content), the optional schema constraint, sampling
  parameters, and whether a stream is asked for.
\<close>

record 's wire_request =
  wire_model_id :: string
  wire_messages :: "(string \<times> string) list"
  schema_constraint :: "'s option"
  sampling_params :: "(string \<times> string) list"
  stream :: bool

text \<open>
  Modelled from the spec: what the backend, which is not part of the repository, can
  answer to one attempt (sections 4.3 and 6): a timeout or a 5xx-equivalent failure (both
  transient), a 4xx-equivalent client failure, a single payload, or an ordered sequence of
  partial payloads.
\<close>

datatype backend_reply =
    Timeout
  | ServerFailure
  | ClientFailure
  | Payload string
  | Partials "StreamChunk list"

text \<open>
  Modelled from the spec: what the missing Request Executor hands back on success (section
  4.3), the raw backend response or a sequence of StreamChunk.
\<close>

datatype response = Raw string | Chunks "StreamChunk list"

text \<open>
  Modelled from the spec: the stub backend of section 8, which answers by the number of
  calls it has received and counts them.
\<close>

record 's backend =
  script :: "'s wire_request \<Rightarrow> nat \<Rightarrow> backend_reply"
  calls :: nat

text \<open>
  Modelled from the spec: the configuration of the missing manager (section 6): the registry
  and the retry bound. The JSON parser and the schema validator are libraries; they are
  fields so that every theorem holds for any choice of them.
\<close>

record ('s, 'j) manager =
  registry :: "(string \<times> ModelEndpoint) list"
  retry_bound :: nat
  parse_json :: "string \<Rightarrow> 'j option"
  validates :: "'s \<Rightarrow> 'j \<Rightarrow> bool"

subsection \<open>Model Registry\<close>

text \<open>
  Modelled from the spec: \<open>resolve\<close> of the missing Model Registry (section 4.1), which
  fails with UnknownModelError if the key is absent.
\<close>

definition resolve :: "(string \<times> ModelEndpoint) list \<Rightarrow> string \<Rightarrow> manager_error + ModelEndpoint" where
  "resolve reg key = (case map_of reg key of None \<Rightarrow> Inl UnknownModelError | Some ep \<Rightarrow> Inr ep)"

subsection \<open>Request Executor\<close>

text \<open>
  Modelled from the spec: the payload the missing Request Executor builds (section 4.3) from
  the messages and, if a schema is set, the schema constraint.
\<close>

definition build_request ::
  "ModelEndpoint \<Rightarrow> (string \<times> string) list \<Rightarrow> 's option \<Rightarrow> mode \<Rightarrow> 's wire_request" where
  "build_request ep messages json_schema m =
     \<lparr>wire_model_id = model_id ep, wire_messages = messages, schema_constraint = json_schema,
      sampling_params = default_params ep, stream = streaming m\<rparr>"

text \<open>Modelled from the spec: one network call to the stub backend of section 8.\<close>

definition attempt :: "'s wire_request \<Rightarrow> 's backend \<Rightarrow> backend_reply \<times> 's backend" where
  "attempt w b = (script b w (calls b), b\<lparr>calls := calls b + 1\<rparr>)"

text \<open>
  Modelled from the spec: \<open>execute\<close> of the missing Request Executor (sections 4.3 and 8).
  The first argument is the number of attempts left, initially the retry bound. A transient
  failure is retried while attempts are left and is surfaced as TransientBackendError when
  none is; a client failure is surfaced at once; a payload or a stream is returned as it is.
\<close>

fun execute ::
  "nat \<Rightarrow> 's wire_request \<Rightarrow> 's backend \<Rightarrow> (manager_error + response) \<times> 's backend" where
  "execute 0 w b = (Inl TransientBackendError, b)"
| "execute (Suc n) w b =
     (case attempt w b of
        (Timeout, b') \<Rightarrow> execute n w b'
      | (ServerFailure, b') \<Rightarrow> execute n w b'
      | (ClientFailure, b') \<Rightarrow> (Inl ClientError, b')
      | (Payload text, b') \<Rightarrow> (Inr (Raw text), b')
      | (Partials chunks, b') \<Rightarrow> (Inr (Chunks chunks), b'))"

subsection \<open>Response Aggregator\<close>

text \<open>
  Modelled from the spec: the schema check of the missing aggregator (sections 3 and 4.4).
  Without a schema the text is the result; with one, the text must parse as JSON and
  validate, or the call fails with SchemaViolationError.
\<close>

definition check_schema :: "('s, 'j) manager \<Rightarrow> 's option \<Rightarrow> string \<Rightarrow> manager_error + 'j QueryResult" where
  "check_schema mgr json_schema text =
     (case json_schema of
        None \<Rightarrow> Inr (Text text)
      | Some sch \<Rightarrow>
          (case parse_json mgr text of
             None \<Rightarrow> Inl SchemaViolationError
           | Some v \<Rightarrow> if validates mgr sch v then Inr (Structured v) else Inl SchemaViolationError))"

text \<open>
  Modelled from the spec: the sequence validation of the missing aggregator (section 4.4):
  once the chunks are in sequence order, every index must be the one before plus one, so
  that a gap or a duplicate is refused.
\<close>

fun strictly_increasing :: "int list \<Rightarrow> bool" where
  "strictly_increasing (i # j # ks) = (j = i + 1 \<and> strictly_increasing (j # ks))"
| "strictly_increasing ks = True"

text \<open>
  Modelled from the spec: \<open>aggregate\<close> of the missing Response Aggregator (section 4.4).
  The chunks are put in \<open>sequence_index\<close> order whatever their arrival order, the sequence
  is validated (StreamOrderingError on a gap or a duplicate), the \<open>delta\<close> fields are
  concatenated in that order, and the schema check is applied to the text.
\<close>

definition aggregate ::
  "('s, 'j) manager \<Rightarrow> 's option \<Rightarrow> StreamChunk list \<Rightarrow> manager_error + 'j QueryResult" where
  "aggregate mgr json_schema chunks =
     (let ordered = sort_key sequence_index chunks
      in if strictly_increasing (map sequence_index ordered)
         then check_schema mgr json_schema (concat (map delta ordered))
         else Inl StreamOrderingError)"

subsection \<open>Query Manager\<close>

text \<open>
  Modelled from the spec: what the missing facade makes of the executor's response (sections
  2 and 4.3): a stream goes through the aggregator, a raw response through the schema
  check.
\<close>

definition finish ::
  "('s, 'j) manager \<Rightarrow> 's option \<Rightarrow> response \<Rightarrow> manager_error + 'j QueryResult" where
  "finish mgr json_schema r =
     (case r of
        Chunks chunks \<Rightarrow> aggregate mgr json_schema chunks
      | Raw text \<Rightarrow> check_schema mgr json_schema text)"

text \<open>
  Modelled from the spec: the single execution function of the missing facade (sections 2,
  4.5 and 9): resolve the model key, execute with retries, then finish. An unknown key
  fails before the executor is reached. \<open>query_name\<close> only labels the telemetry span.
\<close>

definition run_query ::
  "('s, 'j) manager \<Rightarrow> mode \<Rightarrow> string \<Rightarrow> (string \<times> string) list \<Rightarrow> string \<Rightarrow> 's option
     \<Rightarrow> 's backend \<Rightarrow> (manager_error + 'j QueryResult) \<times> 's backend" where
  "run_query mgr m key messages query_name json_schema b =
     (case resolve (registry mgr) key of
        Inl e \<Rightarrow> (Inl e, b)
      | Inr ep \<Rightarrow>
          (case execute (retry_bound mgr) (build_request ep messages json_schema m) b of
             (Inl e, b') \<Rightarrow> (Inl e, b')
           | (Inr r, b') \<Rightarrow> (finish mgr json_schema r, b')))"

text \<open>
  Modelled from the spec: the four public operations of the missing facade (section 4.5),
  thin adapters of the execution function (section 9).
\<close>

definition query_sync ::
  "('s, 'j) manager \<Rightarrow> string \<Rightarrow> (string \<times> string) list \<Rightarrow> string \<Rightarrow> 's option
     \<Rightarrow> 's backend \<Rightarrow> (manager_error + 'j QueryResult) \<times> 's backend" where
  "query_sync mgr = run_query mgr Sync"

definition query_async ::
  "('s, 'j) manager \<Rightarrow> string \<Rightarrow> (string \<times> string) list \<Rightarrow> string \<Rightarrow> 's option
     \<Rightarrow> 's backend \<Rightarrow> (manager_error + 'j QueryResult) \<times> 's backend" where
  "query_async mgr = run_query mgr Async"

definition stream_sync ::
  "('s, 'j) manager \<Rightarrow> string \<Rightarrow> (string \<times> string) list \<Rightarrow> string \<Rightarrow> 's option
     \<Rightarrow> 's backend \<Rightarrow> (manager_error + 'j QueryResult) \<times> 's backend" where
  "stream_sync mgr = run_query mgr StreamSync"

definition stream_async ::
  "('s, 'j) manager \<Rightarrow> string \<Rightarrow> (string \<times> string) list \<Rightarrow> string \<Rightarrow> 's option
     \<Rightarrow> 's backend \<Rightarrow> (manager_error + 'j QueryResult) \<times> 's backend" where
  "stream_async mgr = run_query mgr StreamAsync"

subsection \<open>Notions the claims about the manager use\<close>

text \<open>A transient failure of the backend: a timeout or a 5xx-equivalent failure.\<close>

definition transient :: "backend_reply \<Rightarrow> bool" where
  "transient r = (r = Timeout \<or> r = ServerFailure)"

text \<open>What a successful reply of the backend delivers to the executor.\<close>

definition delivered :: "backend_reply \<Rightarrow> response option" where
  "delivered r =
     (case r of Payload text \<Rightarrow> Some (Raw text) | Partials chunks \<Rightarrow> Some (Chunks chunks)
      | _ \<Rightarrow> None)"

text \<open>
  The indices form a contiguous, duplicate-free range that starts at \<open>lo\<close>: no index
  occurs twice, and the indices are exactly the integers from \<open>lo\<close> on, as many as there
  are chunks.
\<close>

definition contiguous_range :: "int \<Rightarrow> int list \<Rightarrow> bool" where
  "contiguous_range lo ks = (distinct ks \<and> set ks = {lo ..< lo + int (length ks)})"

text \<open>The text carried by the chunk of a given index (the first such chunk in the list).\<close>

definition delta_at :: "StreamChunk list \<Rightarrow> int \<Rightarrow> string" where
  "delta_at chunks i =
     (case find (\<lambda>c. sequence_index c = i) chunks of None \<Rightarrow> [] | Some c \<Rightarrow> delta c)"

section \<open>Properties of the prompt catalogs\<close>

subsection \<open>Dictionaries and compiled templates\<close>

lemma map_of_compile_templates:
  "map_of (compile_templates d) name = map_option Template (map_of d name)"
  by (induction d) (auto simp: compile_templates_def)

lemma py_keys_compile_templates: "py_keys (compile_templates d) = py_keys d"
  by (induction d) (auto simp: compile_templates_def py_keys_def)

lemma py_in_keys: "py_in name d \<longleftrightarrow> name \<in> py_keys d"
  by (simp add: py_in_def py_keys_def map_of_eq_None_iff)

lemma py_getitem_Inr: "py_getitem d name = Inr v \<longleftrightarrow> map_of d name = Some v"
  by (simp add: py_getitem_def split: option.splits)

lemma py_getitem_absent: "\<not> py_in name d \<Longrightarrow> py_getitem d name = Inl (KeyError name)"
  by (simp add: py_in_def py_getitem_def)

lemma py_in_compile_templates: "py_in name (compile_templates d) = py_in name d"
  by (simp add: py_in_keys py_keys_compile_templates)

lemma do_lookup_frame: "snd (do_lookup inherited cls g l) = g"
  by (cases l)
     (auto simp: do_lookup_def attribute_access_def dunder_getattr_def get_template_def
           split: prod.splits sum.splits)

lemma do_lookups_frame: "snd (do_lookups inherited cls g ls) = g"
proof (induction ls)
  case Nil
  show ?case by simp
next
  case (Cons l ls)
  have "snd (do_lookup inherited cls g l) = g" by (rule do_lookup_frame)
  with Cons show ?case by (auto split: prod.splits)
qed

lemma do_lookups_results:
  "fst (do_lookups inherited cls g ls) = map (\<lambda>l. fst (do_lookup inherited cls g l)) ls"
proof (induction ls)
  case Nil
  show ?case by simp
next
  case (Cons l ls)
  have "snd (do_lookup inherited cls g l) = g" by (rule do_lookup_frame)
  with Cons show ?case by (auto split: prod.splits)
qed

lemma dunder_getattr_present:
  "map_of (PROMPT_TEMPLATES g) name = Some s \<Longrightarrow> dunder_getattr cls g name = (Inr s, g)"
  by (simp add: dunder_getattr_def py_in_def py_getitem_def)

lemma dunder_getattr_absent:
  "\<not> py_in name (PROMPT_TEMPLATES g) \<Longrightarrow>
     dunder_getattr cls g name = (Inl (AttributeError (no_attribute_message cls name)), g)"
  by (simp add: dunder_getattr_def)

lemma attribute_access_hook:
  "name \<notin> set class_body \<Longrightarrow> name \<notin> set inherited \<Longrightarrow>
     attribute_access inherited cls g name =
       (case dunder_getattr cls g name of (Inl e, g') \<Rightarrow> (Inl e, g') | (Inr s, g') \<Rightarrow> (Inr (Prompt s), g'))"
  by (simp add: attribute_access_def)

lemma attribute_access_ordinary:
  "name \<in> set class_body \<or> name \<in> set inherited \<Longrightarrow>
     attribute_access inherited cls g name = (Inr (Ordinary name), g)"
  by (simp add: attribute_access_def)

lemma podcast_keys:
  "py_keys podcast_PROMPT_TEMPLATES =
    {''podcast_summary_prompt'', ''podcast_multi_pdf_outline_prompt'',
     ''podcast_multi_pdf_structured_outline_prompt'', ''podcast_prompt_with_references'',
     ''podcast_prompt_no_references'', ''podcast_transcript_to_dialogue_prompt'',
     ''podcast_combine_dialogues_prompt'', ''podcast_dialogue_prompt''}"
  by (simp add: py_keys_def podcast_PROMPT_TEMPLATES_def)

lemma monologue_keys:
  "py_keys monologue_PROMPT_TEMPLATES =
    {''monologue_summary_prompt'', ''monologue_multi_doc_synthesis_prompt'',
     ''monologue_transcript_prompt'', ''monologue_dialogue_prompt''}"
  by (simp add: py_keys_def monologue_PROMPT_TEMPLATES_def)

lemma podcast_keys_not_class_body:
  "name \<in> py_keys podcast_PROMPT_TEMPLATES \<Longrightarrow> name \<notin> set class_body"
  unfolding podcast_keys class_body_def by auto

lemma monologue_keys_not_class_body:
  "name \<in> py_keys monologue_PROMPT_TEMPLATES \<Longrightarrow> name \<notin> set class_body"
  unfolding monologue_keys class_body_def by auto


text \<open>
  Claim C8. The template catalog is read-only under lookup. Whatever sequence of lookups
  (attribute accesses and \<open>get_template\<close> calls) a client issues against either module,
  \<open>PROMPT_TEMPLATES\<close> and \<open>TEMPLATES\<close> are left as they were, so every lookup of the
  sequence answers as it would on the catalog as loaded. For every name present in the
  catalog, \<open>__getattr__\<close> returns its string, \<open>get_template\<close> returns the template
  compiled from that string and, the name not being an inherited attribute, attribute
  access returns the string too (no catalog name is \<open>get_template\<close> or \<open>__getattr__\<close>).
\<close>
theorem catalog_lookup_is_read_only:
  "snd (do_lookups inherited cls podcast_prompts ls) = podcast_prompts \<and>
   fst (do_lookups inherited cls podcast_prompts ls) =
     map (\<lambda>l. fst (do_lookup inherited cls podcast_prompts l)) ls \<and>
   snd (do_lookups inherited cls monologue_prompts ls) = monologue_prompts \<and>
   fst (do_lookups inherited cls monologue_prompts ls) =
     map (\<lambda>l. fst (do_lookup inherited cls monologue_prompts l)) ls \<and>
   (\<forall>s. map_of (PROMPT_TEMPLATES podcast_prompts) name = Some s \<longrightarrow>
      dunder_getattr cls podcast_prompts name = (Inr s, podcast_prompts) \<and>
      get_template podcast_prompts name = (Inr (Template s), podcast_prompts) \<and>
      (name \<notin> set inherited \<longrightarrow>
         attribute_access inherited cls podcast_prompts name = (Inr (Prompt s), podcast_prompts))) \<and>
   (\<forall>s. map_of (PROMPT_TEMPLATES monologue_prompts) name = Some s \<longrightarrow>
      dunder_getattr cls monologue_prompts name = (Inr s, monologue_prompts) \<and>
      get_template monologue_prompts name = (Inr (Template s), monologue_prompts) \<and>
      (name \<notin> set inherited \<longrightarrow>
         attribute_access inherited cls monologue_prompts name =
           (Inr (Prompt s), monologue_prompts)))"
proof -
  have present:
    "dunder_getattr cls g name = (Inr s, g) \<and>
     get_template g name = (Inr (Template s), g) \<and>
     (name \<notin> set inherited \<longrightarrow> attribute_access inherited cls g name = (Inr (Prompt s), g))"
    if g: "TEMPLATES g = compile_templates (PROMPT_TEMPLATES g)"
      and nb: "name \<notin> set class_body"
      and s: "map_of (PROMPT_TEMPLATES g) name = Some s"
    for g :: "'s module_globals" and s
  proof -
    have hook: "dunder_getattr cls g name = (Inr s, g)"
      using s by (rule dunder_getattr_present)
    have tmpl: "get_template g name = (Inr (Template s), g)"
      using s by (simp add: get_template_def g py_getitem_def map_of_compile_templates)
    have "attribute_access inherited cls g name = (Inr (Prompt s), g)"
      if "name \<notin> set inherited"
      using nb that hook by (simp add: attribute_access_hook)
    with hook tmpl show ?thesis by blast
  qed
  have p: "TEMPLATES podcast_prompts = compile_templates (PROMPT_TEMPLATES podcast_prompts)"
    by (simp add: podcast_prompts_def)
  have m: "TEMPLATES monologue_prompts = compile_templates (PROMPT_TEMPLATES monologue_prompts)"
    by (simp add: monologue_prompts_def)
  have pk: "name \<notin> set class_body"
    if "map_of (PROMPT_TEMPLATES podcast_prompts) name = Some s" for s
  proof -
    from that have "name \<in> py_keys podcast_PROMPT_TEMPLATES"
      by (auto simp: podcast_prompts_def py_keys_def dest: map_of_SomeD intro: rev_image_eqI)
    then show ?thesis by (rule podcast_keys_not_class_body)
  qed
  have mk: "name \<notin> set class_body"
    if "map_of (PROMPT_TEMPLATES monologue_prompts) name = Some s" for s
  proof -
    from that have "name \<in> py_keys monologue_PROMPT_TEMPLATES"
      by (auto simp: monologue_prompts_def py_keys_def dest: map_of_SomeD intro: rev_image_eqI)
    then show ?thesis by (rule monologue_keys_not_class_body)
  qed
  show ?thesis
    using present [OF p pk] present [OF m mk]
    by (simp add: do_lookups_frame do_lookups_results)
qed

text \<open>The theorem at three lookups on the podcast module, one of them failing.\<close>
theorem catalog_lookup_is_read_only_witness:
  "snd (do_lookups [''__class__'', ''__doc__''] ''PodcastPrompts'' podcast_prompts
          [Attr ''podcast_summary_prompt'', GetTemplate ''podcast_dialogue_prompt'',
           Attr ''nonexistent'']) = podcast_prompts \<and>
   attribute_access [''__class__'', ''__doc__''] ''PodcastPrompts'' podcast_prompts
       ''podcast_summary_prompt'' = (Inr (Prompt PODCAST_SUMMARY_PROMPT_STR), podcast_prompts) \<and>
   get_template podcast_prompts ''podcast_summary_prompt'' =
       (Inr (Template PODCAST_SUMMARY_PROMPT_STR), podcast_prompts)"
proof -
  have s: "map_of (PROMPT_TEMPLATES podcast_prompts) ''podcast_summary_prompt'' =
             Some PODCAST_SUMMARY_PROMPT_STR"
    by (simp add: podcast_prompts_def podcast_PROMPT_TEMPLATES_def)
  have n: "''podcast_summary_prompt'' \<notin> set [''__class__'', ''__doc__'']"
    by simp
  show ?thesis
    using s n
      catalog_lookup_is_read_only [of "[''__class__'', ''__doc__'']" "''PodcastPrompts''"
        "[Attr ''podcast_summary_prompt'', GetTemplate ''podcast_dialogue_prompt'',
          Attr ''nonexistent'']" "''podcast_summary_prompt''"]
    by blast
qed


lemma compiled_lookups_agree:
  fixes g :: "'s module_globals"
  assumes g: "TEMPLATES g = compile_templates (PROMPT_TEMPLATES g)"
  shows "(\<exists>t. fst (get_template g name) = Inr t) =
           (\<exists>s. fst (dunder_getattr cls g name) = Inr s)"
  by (cases "map_of (PROMPT_TEMPLATES g) name")
     (simp_all add: get_template_def dunder_getattr_def g py_getitem_def py_in_def
        map_of_compile_templates)

lemma compiled_access_agree:
  fixes g :: "'s module_globals"
  assumes g: "TEMPLATES g = compile_templates (PROMPT_TEMPLATES g)"
    and disj: "py_keys (PROMPT_TEMPLATES g) \<inter> set class_body = {}"
    and inh: "name \<notin> set inherited"
  shows "(\<exists>t. fst (get_template g name) = Inr t) =
           (\<exists>s. fst (attribute_access inherited cls g name) = Inr (Prompt s))"
proof (cases "map_of (PROMPT_TEMPLATES g) name")
  case None
  then show ?thesis
    by (simp add: get_template_def attribute_access_def dunder_getattr_def g py_getitem_def
          py_in_def map_of_compile_templates)
next
  case (Some s)
  then have "name \<in> py_keys (PROMPT_TEMPLATES g)"
    by (auto simp: py_keys_def dest: map_of_SomeD intro: rev_image_eqI)
  with disj have "name \<notin> set class_body" by blast
  with Some inh show ?thesis
    by (simp add: get_template_def attribute_access_def dunder_getattr_def g py_getitem_def
          py_in_def map_of_compile_templates)
qed

lemma podcast_disjoint: "py_keys (PROMPT_TEMPLATES podcast_prompts) \<inter> set class_body = {}"
  using podcast_keys_not_class_body by (auto simp: podcast_prompts_def)

lemma monologue_disjoint: "py_keys (PROMPT_TEMPLATES monologue_prompts) \<inter> set class_body = {}"
  using monologue_keys_not_class_body by (auto simp: monologue_prompts_def)

lemma podcast_compiled:
  "TEMPLATES podcast_prompts = compile_templates (PROMPT_TEMPLATES podcast_prompts)"
  by (simp add: podcast_prompts_def)

lemma monologue_compiled:
  "TEMPLATES monologue_prompts = compile_templates (PROMPT_TEMPLATES monologue_prompts)"
  by (simp add: monologue_prompts_def)

text \<open>
  Claim C9. In each module \<open>TEMPLATES\<close> has the keys of \<open>PROMPT_TEMPLATES\<close>, and its
  entry for a key is the template compiled from the string \<open>PROMPT_TEMPLATES\<close> holds for
  that key. Hence \<open>get_template name\<close> succeeds exactly when the string lookup
  \<open>__getattr__ name\<close> succeeds, and exactly when attribute access yields a prompt string
  (for a name that is not an inherited attribute).
\<close>
theorem templates_mirror_prompt_templates:
  "py_keys (TEMPLATES podcast_prompts) = py_keys (PROMPT_TEMPLATES podcast_prompts) \<and>
   py_keys (TEMPLATES monologue_prompts) = py_keys (PROMPT_TEMPLATES monologue_prompts) \<and>
   map_of (TEMPLATES podcast_prompts) name =
     map_option Template (map_of (PROMPT_TEMPLATES podcast_prompts) name) \<and>
   map_of (TEMPLATES monologue_prompts) name =
     map_option Template (map_of (PROMPT_TEMPLATES monologue_prompts) name) \<and>
   ((\<exists>t. fst (get_template podcast_prompts name) = Inr t) =
      (\<exists>s. fst (dunder_getattr cls podcast_prompts name) = Inr s)) \<and>
   ((\<exists>t. fst (get_template monologue_prompts name) = Inr t) =
      (\<exists>s. fst (dunder_getattr cls monologue_prompts name) = Inr s)) \<and>
   (name \<notin> set inherited \<longrightarrow>
      ((\<exists>t. fst (get_template podcast_prompts name) = Inr t) =
         (\<exists>s. fst (attribute_access inherited cls podcast_prompts name) = Inr (Prompt s))) \<and>
      ((\<exists>t. fst (get_template monologue_prompts name) = Inr t) =
         (\<exists>s. fst (attribute_access inherited cls monologue_prompts name) = Inr (Prompt s))))"
proof -
  have keys:
    "py_keys (TEMPLATES podcast_prompts) = py_keys (PROMPT_TEMPLATES podcast_prompts)"
    "py_keys (TEMPLATES monologue_prompts) = py_keys (PROMPT_TEMPLATES monologue_prompts)"
    by (simp_all add: podcast_compiled monologue_compiled py_keys_compile_templates)
  have entries:
    "map_of (TEMPLATES podcast_prompts) name =
       map_option Template (map_of (PROMPT_TEMPLATES podcast_prompts) name)"
    "map_of (TEMPLATES monologue_prompts) name =
       map_option Template (map_of (PROMPT_TEMPLATES monologue_prompts) name)"
    by (simp_all add: podcast_compiled monologue_compiled map_of_compile_templates)
  note hook = compiled_lookups_agree [OF podcast_compiled, of name cls]
    compiled_lookups_agree [OF monologue_compiled, of name cls]
  have access:
    "(\<exists>t. fst (get_template podcast_prompts name) = Inr t) =
       (\<exists>s. fst (attribute_access inherited cls podcast_prompts name) = Inr (Prompt s))"
    "(\<exists>t. fst (get_template monologue_prompts name) = Inr t) =
       (\<exists>s. fst (attribute_access inherited cls monologue_prompts name) = Inr (Prompt s))"
    if "name \<notin> set inherited"
    using that compiled_access_agree [OF podcast_compiled podcast_disjoint]
      compiled_access_agree [OF monologue_compiled monologue_disjoint]
    by blast+
  from keys entries hook access show ?thesis by blast
qed

text \<open>The theorem at a key of the monologue module, which the podcast module lacks.\<close>
theorem templates_mirror_prompt_templates_witness:
  "py_keys (TEMPLATES monologue_prompts) = py_keys (PROMPT_TEMPLATES monologue_prompts) \<and>
   (\<exists>t. fst (get_template monologue_prompts ''monologue_transcript_prompt'') = Inr t) \<and>
   (\<exists>s. fst (attribute_access [''__class__''] ''FinancialSummaryPrompts'' monologue_prompts
            ''monologue_transcript_prompt'') = Inr (Prompt s)) \<and>
   fst (get_template podcast_prompts ''monologue_transcript_prompt'') =
     Inl (KeyError ''monologue_transcript_prompt'')"
proof -
  have n: "''monologue_transcript_prompt'' \<notin> set [''__class__'']"
    by simp
  have t: "fst (get_template monologue_prompts ''monologue_transcript_prompt'') =
             Inr (Template MONOLOGUE_TRANSCRIPT_PROMPT_STR)"
    by (simp add: get_template_def monologue_prompts_def monologue_PROMPT_TEMPLATES_def
          compile_templates_def py_getitem_def)
  have k: "fst (get_template podcast_prompts ''monologue_transcript_prompt'') =
             Inl (KeyError ''monologue_transcript_prompt'')"
    by (simp add: get_template_def podcast_prompts_def podcast_PROMPT_TEMPLATES_def
          compile_templates_def py_getitem_def)
  show ?thesis
    using n t k
      templates_mirror_prompt_templates [of "''monologue_transcript_prompt''"
        "''FinancialSummaryPrompts''" "[''__class__'']"]
    by blast
qed


lemma absent_name_errors:
  fixes g :: "'s module_globals"
  assumes g: "TEMPLATES g = compile_templates (PROMPT_TEMPLATES g)"
    and absent: "name \<notin> py_keys (PROMPT_TEMPLATES g)"
  shows "get_template g name = (Inl (KeyError name), g)"
    and "dunder_getattr cls g name = (Inl (AttributeError (no_attribute_message cls name)), g)"
    and "name \<notin> set class_body \<Longrightarrow> name \<notin> set inherited \<Longrightarrow>
           attribute_access inherited cls g name =
             (Inl (AttributeError (no_attribute_message cls name)), g)"
proof -
  from absent have n: "\<not> py_in name (PROMPT_TEMPLATES g)"
    by (simp add: py_in_keys)
  then have "\<not> py_in name (TEMPLATES g)"
    by (simp add: g py_in_compile_templates)
  then show "get_template g name = (Inl (KeyError name), g)"
    by (simp add: get_template_def py_getitem_absent)
  from n show hook:
    "dunder_getattr cls g name = (Inl (AttributeError (no_attribute_message cls name)), g)"
    by (rule dunder_getattr_absent)
  show "attribute_access inherited cls g name =
          (Inl (AttributeError (no_attribute_message cls name)), g)"
    if "name \<notin> set class_body" "name \<notin> set inherited"
    using that hook by (simp add: attribute_access_hook)
qed

text \<open>
  Claim C10, as amended. For every name absent from the catalog, in both classes,
  \<open>get_template\<close> raises \<open>KeyError\<close> and \<open>__getattr__\<close> raises \<open>AttributeError\<close>, two
  different exception types. Attribute access raises that \<open>AttributeError\<close> for every such
  name the default lookup does not resolve; for \<open>get_template\<close>, \<open>__getattr__\<close> and the
  inherited names it returns the attribute and raises nothing.
\<close>
theorem failing_lookup_exception_types:
  "(name \<notin> py_keys (PROMPT_TEMPLATES podcast_prompts) \<longrightarrow>
      fst (get_template podcast_prompts name) = Inl (KeyError name) \<and>
      fst (dunder_getattr cls podcast_prompts name) =
        Inl (AttributeError (no_attribute_message cls name)) \<and>
      (name \<notin> set class_body \<and> name \<notin> set inherited \<longrightarrow>
         fst (attribute_access inherited cls podcast_prompts name) =
           Inl (AttributeError (no_attribute_message cls name))) \<and>
      (name \<in> set class_body \<or> name \<in> set inherited \<longrightarrow>
         fst (attribute_access inherited cls podcast_prompts name) = Inr (Ordinary name))) \<and>
   (name \<notin> py_keys (PROMPT_TEMPLATES monologue_prompts) \<longrightarrow>
      fst (get_template monologue_prompts name) = Inl (KeyError name) \<and>
      fst (dunder_getattr cls monologue_prompts name) =
        Inl (AttributeError (no_attribute_message cls name)) \<and>
      (name \<notin> set class_body \<and> name \<notin> set inherited \<longrightarrow>
         fst (attribute_access inherited cls monologue_prompts name) =
           Inl (AttributeError (no_attribute_message cls name))) \<and>
      (name \<in> set class_body \<or> name \<in> set inherited \<longrightarrow>
         fst (attribute_access inherited cls monologue_prompts name) = Inr (Ordinary name))) \<and>
   KeyError name \<noteq> AttributeError (no_attribute_message cls name)"
  using absent_name_errors [OF podcast_compiled] absent_name_errors [OF monologue_compiled]
  by (simp add: attribute_access_ordinary)

text \<open>The theorem at a name no lookup knows, and at the inherited \<open>__class__\<close>.\<close>
theorem failing_lookup_exception_types_witness:
  "fst (get_template podcast_prompts ''podcast_outline'') = Inl (KeyError ''podcast_outline'') \<and>
   fst (attribute_access [''__class__''] ''PodcastPrompts'' podcast_prompts ''podcast_outline'') =
     Inl (AttributeError (no_attribute_message ''PodcastPrompts'' ''podcast_outline'')) \<and>
   fst (get_template monologue_prompts ''__class__'') = Inl (KeyError ''__class__'') \<and>
   fst (attribute_access [''__class__''] ''PodcastPrompts'' monologue_prompts ''__class__'') =
     Inr (Ordinary ''__class__'')"
proof -
  have a: "''podcast_outline'' \<notin> py_keys (PROMPT_TEMPLATES podcast_prompts)"
    by (simp add: podcast_prompts_def podcast_keys)
  have b: "''podcast_outline'' \<notin> set class_body \<and> ''podcast_outline'' \<notin> set [''__class__'']"
    by (simp add: class_body_def)
  have c: "''__class__'' \<notin> py_keys (PROMPT_TEMPLATES monologue_prompts)"
    by (simp add: monologue_prompts_def monologue_keys)
  have d: "''__class__'' \<in> set class_body \<or> ''__class__'' \<in> set [''__class__'']"
    by simp
  show ?thesis
    using a b failing_lookup_exception_types [of "''podcast_outline''" "''PodcastPrompts''" "[''__class__'']"]
      c d failing_lookup_exception_types [of "''__class__''" "''PodcastPrompts''" "[''__class__'']"]
    by blast
qed

text \<open>
  Claim C10 as stated fails at the name \<open>get_template\<close>: it is absent from the catalog,
  \<open>get_template\<close> raises \<open>KeyError\<close> for it, and attribute access returns the method.
\<close>
theorem attribute_access_of_method_counterexample:
  "''get_template'' \<notin> py_keys (PROMPT_TEMPLATES monologue_prompts) \<and>
   fst (get_template monologue_prompts ''get_template'') = Inl (KeyError ''get_template'') \<and>
   fst (attribute_access [''__class__'', ''__doc__''] ''FinancialSummaryPrompts''
          monologue_prompts ''get_template'') = Inr (Ordinary ''get_template'')"
proof -
  have "''get_template'' \<notin> py_keys (PROMPT_TEMPLATES monologue_prompts)"
    by (simp add: monologue_prompts_def monologue_keys)
  moreover have
    "fst (get_template monologue_prompts ''get_template'') = Inl (KeyError ''get_template'')"
    by (simp add: monologue_prompts_def get_template_def py_getitem_def compile_templates_def
          monologue_PROMPT_TEMPLATES_def)
  moreover have
    "fst (attribute_access [''__class__'', ''__doc__''] ''FinancialSummaryPrompts''
            monologue_prompts ''get_template'') = Inr (Ordinary ''get_template'')"
    by (simp add: attribute_access_def class_body_def)
  ultimately show ?thesis by blast
qed


lemma podcast_TEMPLATES:
  "TEMPLATES podcast_prompts =
    [(''podcast_summary_prompt'', Template PODCAST_SUMMARY_PROMPT_STR),
     (''podcast_multi_pdf_outline_prompt'', Template PODCAST_MULTI_PDF_OUTLINE_PROMPT_STR),
     (''podcast_multi_pdf_structured_outline_prompt'',
        Template PODCAST_MULTI_PDF_STRUCUTRED_OUTLINE_PROMPT_STR),
     (''podcast_prompt_with_references'', Template PODCAST_PROMPT_WITH_REFERENCES_STR),
     (''podcast_prompt_no_references'', Template PODCAST_PROMPT_NO_REFERENCES_STR),
     (''podcast_transcript_to_dialogue_prompt'',
        Template PODCAST_TRANSCRIPT_TO_DIALOGUE_PROMPT_STR),
     (''podcast_combine_dialogues_prompt'', Template PODCAST_COMBINE_DIALOGUES_PROMPT_STR),
     (''podcast_dialogue_prompt'', Template PODCAST_DIALOGUE_PROMPT_STR)]"
  by (simp add: podcast_prompts_def podcast_PROMPT_TEMPLATES_def compile_templates_def)

lemma monologue_TEMPLATES:
  "TEMPLATES monologue_prompts =
    [(''monologue_summary_prompt'', Template MONOLOGUE_SUMMARY_PROMPT_STR),
     (''monologue_multi_doc_synthesis_prompt'',
        Template MONOLOGUE_MULTI_DOC_SYNTHESIS_PROMPT_STR),
     (''monologue_transcript_prompt'', Template MONOLOGUE_TRANSCRIPT_PROMPT_STR),
     (''monologue_dialogue_prompt'', Template MONOLOGUE_DIALOGUE_PROMPT_STR)]"
  by (simp add: monologue_prompts_def monologue_PROMPT_TEMPLATES_def compile_templates_def)

lemma do_lookup_absent:
  fixes g :: "'s module_globals"
  assumes g: "TEMPLATES g = compile_templates (PROMPT_TEMPLATES g)"
    and absent: "name \<notin> py_keys (TEMPLATES g)"
  shows "fst (do_lookup inherited cls g (GetTemplate name)) = Inl (KeyError name) \<and>
         (name \<notin> set class_body \<and> name \<notin> set inherited \<longrightarrow>
            fst (do_lookup inherited cls g (Attr name)) =
              Inl (AttributeError (no_attribute_message cls name))) \<and>
         (name \<in> set class_body \<or> name \<in> set inherited \<longrightarrow>
            fst (do_lookup inherited cls g (Attr name)) = Inr (FoundAttribute (Ordinary name)))"
proof -
  from absent have a: "name \<notin> py_keys (PROMPT_TEMPLATES g)"
    by (simp add: g py_keys_compile_templates)
  show ?thesis
    using absent_name_errors [OF g a]
    by (simp add: do_lookup_def attribute_access_ordinary)
qed

text \<open>
  Claim C4, as amended. Each catalog is a fixed mapping from a closed set of string
  constants (eight for the podcast module, four for the monologue module) to compiled
  templates. For every identifier outside that set, \<open>get_template\<close> fails with \<open>KeyError\<close>;
  lookup by attribute is dynamic: it fails with \<open>AttributeError\<close> when the default lookup
  does not resolve the name, and returns the attribute when it does.
\<close>
theorem unknown_template_lookup:
  "TEMPLATES podcast_prompts =
     [(''podcast_summary_prompt'', Template PODCAST_SUMMARY_PROMPT_STR),
      (''podcast_multi_pdf_outline_prompt'', Template PODCAST_MULTI_PDF_OUTLINE_PROMPT_STR),
      (''podcast_multi_pdf_structured_outline_prompt'',
         Template PODCAST_MULTI_PDF_STRUCUTRED_OUTLINE_PROMPT_STR),
      (''podcast_prompt_with_references'', Template PODCAST_PROMPT_WITH_REFERENCES_STR),
      (''podcast_prompt_no_references'', Template PODCAST_PROMPT_NO_REFERENCES_STR),
      (''podcast_transcript_to_dialogue_prompt'',
         Template PODCAST_TRANSCRIPT_TO_DIALOGUE_PROMPT_STR),
      (''podcast_combine_dialogues_prompt'', Template PODCAST_COMBINE_DIALOGUES_PROMPT_STR),
      (''podcast_dialogue_prompt'', Template PODCAST_DIALOGUE_PROMPT_STR)] \<and>
   TEMPLATES monologue_prompts =
     [(''monologue_summary_prompt'', Template MONOLOGUE_SUMMARY_PROMPT_STR),
      (''monologue_multi_doc_synthesis_prompt'',
         Template MONOLOGUE_MULTI_DOC_SYNTHESIS_PROMPT_STR),
      (''monologue_transcript_prompt'', Template MONOLOGUE_TRANSCRIPT_PROMPT_STR),
      (''monologue_dialogue_prompt'', Template MONOLOGUE_DIALOGUE_PROMPT_STR)] \<and>
   (name \<notin> py_keys (TEMPLATES podcast_prompts) \<longrightarrow>
      fst (do_lookup inherited cls podcast_prompts (GetTemplate name)) = Inl (KeyError name) \<and>
      (name \<notin> set class_body \<and> name \<notin> set inherited \<longrightarrow>
         fst (do_lookup inherited cls podcast_prompts (Attr name)) =
           Inl (AttributeError (no_attribute_message cls name))) \<and>
      (name \<in> set class_body \<or> name \<in> set inherited \<longrightarrow>
         fst (do_lookup inherited cls podcast_prompts (Attr name)) =
           Inr (FoundAttribute (Ordinary name)))) \<and>
   (name \<notin> py_keys (TEMPLATES monologue_prompts) \<longrightarrow>
      fst (do_lookup inherited cls monologue_prompts (GetTemplate name)) = Inl (KeyError name) \<and>
      (name \<notin> set class_body \<and> name \<notin> set inherited \<longrightarrow>
         fst (do_lookup inherited cls monologue_prompts (Attr name)) =
           Inl (AttributeError (no_attribute_message cls name))) \<and>
      (name \<in> set class_body \<or> name \<in> set inherited \<longrightarrow>
         fst (do_lookup inherited cls monologue_prompts (Attr name)) =
           Inr (FoundAttribute (Ordinary name))))"
  using podcast_TEMPLATES monologue_TEMPLATES
    do_lookup_absent [OF podcast_compiled, of name inherited cls]
    do_lookup_absent [OF monologue_compiled, of name inherited cls]
  by blast

text \<open>The theorem at an unknown identifier, and at the method name \<open>__getattr__\<close>.\<close>
theorem unknown_template_lookup_witness:
  "fst (do_lookup [''__class__''] ''PodcastPrompts'' podcast_prompts (GetTemplate ''nonexistent'')) =
     Inl (KeyError ''nonexistent'') \<and>
   fst (do_lookup [''__class__''] ''PodcastPrompts'' podcast_prompts (Attr ''nonexistent'')) =
     Inl (AttributeError (no_attribute_message ''PodcastPrompts'' ''nonexistent'')) \<and>
   fst (do_lookup [''__class__''] ''PodcastPrompts'' monologue_prompts (Attr ''__getattr__'')) =
     Inr (FoundAttribute (Ordinary ''__getattr__''))"
proof -
  have a: "''nonexistent'' \<notin> py_keys (TEMPLATES podcast_prompts)"
    by (simp add: podcast_compiled py_keys_compile_templates podcast_prompts_def podcast_keys)
  have b: "''nonexistent'' \<notin> set class_body \<and> ''nonexistent'' \<notin> set [''__class__'']"
    by (simp add: class_body_def)
  have c: "''__getattr__'' \<notin> py_keys (TEMPLATES monologue_prompts)"
    by (simp add: monologue_compiled py_keys_compile_templates monologue_prompts_def
          monologue_keys)
  have d: "''__getattr__'' \<in> set class_body \<or> ''__getattr__'' \<in> set [''__class__'']"
    by (simp add: class_body_def)
  show ?thesis
    using a b unknown_template_lookup [of "''nonexistent''" "[''__class__'']" "''PodcastPrompts''"]
      c d unknown_template_lookup [of "''__getattr__''" "[''__class__'']" "''PodcastPrompts''"]
    by blast
qed

text \<open>
  Claim C4 as stated fails at the identifier \<open>get_template\<close>: it is not in the catalog, and
  looking it up as an attribute does not fail but resolves to the method of the class.
\<close>
theorem dynamic_attribute_resolution_counterexample:
  "''get_template'' \<notin> py_keys (TEMPLATES podcast_prompts) \<and>
   fst (do_lookup [''__class__'', ''__doc__''] ''PodcastPrompts'' podcast_prompts
          (Attr ''get_template'')) = Inr (FoundAttribute (Ordinary ''get_template''))"
proof -
  have "''get_template'' \<notin> py_keys (TEMPLATES podcast_prompts)"
    by (simp add: podcast_compiled py_keys_compile_templates podcast_prompts_def podcast_keys)
  moreover have
    "fst (do_lookup [''__class__'', ''__doc__''] ''PodcastPrompts'' podcast_prompts
            (Attr ''get_template'')) = Inr (FoundAttribute (Ordinary ''get_template''))"
    by (simp add: do_lookup_def attribute_access_def class_body_def)
  ultimately show ?thesis by blast
qed

section \<open>Properties of the query manager\<close>

subsection \<open>Response Aggregator\<close>

lemma strictly_increasing_upto: "strictly_increasing [i..j]"
proof (induction "nat (j - i + 1)" arbitrary: i)
  case 0
  then show ?case by simp
next
  case (Suc n)
  then have ij: "i \<le> j" by simp
  have A: "[i..j] = i # [i + 1..j]"
    using ij by (rule upto_rec1)
  show ?case
  proof (cases "i + 1 \<le> j")
    case True
    have "n = nat (j - (i + 1) + 1)" using Suc.hyps(2) by simp
    then have IH: "strictly_increasing [i + 1..j]" by (rule Suc.hyps(1))
    from True obtain rest where B: "[i + 1..j] = (i + 1) # rest"
      using upto_rec1 by blast
    from IH show ?thesis unfolding A B by simp
  next
    case False
    then have "[i + 1..j] = []" by simp
    then show ?thesis unfolding A by simp
  qed
qed

lemma strictly_increasing_is_upto:
  "strictly_increasing (k # ks) \<Longrightarrow> k # ks = [k .. k + int (length ks)]"
proof (induction ks arbitrary: k)
  case Nil
  show ?case by simp
next
  case (Cons j ks)
  have "strictly_increasing (k # j # ks) = (j = k + 1 \<and> strictly_increasing (j # ks))"
    by (rule strictly_increasing.simps(1))
  with Cons.prems have j: "j = k + 1" and rest: "strictly_increasing (j # ks)" by blast+
  define h where "h = k + int (length (j # ks))"
  have hi: "j + int (length ks) = h"
    using j by (simp add: h_def)
  have kh: "k \<le> h"
    by (simp add: h_def)
  from Cons.IH [OF rest] have tl: "j # ks = [k + 1 .. h]"
    unfolding hi unfolding j .
  have "[k .. h] = k # [k + 1 .. h]"
    using kh by (rule upto_rec1)
  then have "k # j # ks = [k .. h]"
    by (simp only: tl)
  then show ?case
    by (simp only: h_def)
qed

lemma contiguous_range_upto:
  assumes a: "sorted ks" and c: "contiguous_range lo ks"
  shows "ks = [lo .. lo + int (length ks) - 1]"
proof -
  from c have d: "distinct ks" and s: "set ks = {lo ..< lo + int (length ks)}"
    by (simp_all add: contiguous_range_def)
  have "{lo ..< lo + int (length ks)} = {lo .. lo + int (length ks) - 1}"
    by (rule atLeastLessThanPlusOne_atLeastAtMost_int [of lo "lo + int (length ks) - 1", simplified])
  with s have "set ks = set [lo .. lo + int (length ks) - 1]"
    by (simp only: set_upto)
  with a d show ?thesis
    by (rule sorted_distinct_set_unique [OF _ _ sorted_upto distinct_upto])
qed

lemma upto_contiguous_range: "contiguous_range lo [lo .. lo + int n - 1]"
proof -
  have "{lo .. lo + int n - 1} = {lo ..< lo + int n}"
    by (rule atLeastLessThanPlusOne_atLeastAtMost_int [of lo "lo + int n - 1", simplified, symmetric])
  then show ?thesis
    by (simp add: contiguous_range_def)
qed

lemma strictly_increasing_iff:
  assumes "sorted ks"
  shows "strictly_increasing ks \<longleftrightarrow> (\<exists>lo. contiguous_range lo ks)"
proof
  assume si: "strictly_increasing ks"
  show "\<exists>lo. contiguous_range lo ks"
  proof (cases ks)
    case Nil
    then show ?thesis by (simp add: contiguous_range_def)
  next
    case (Cons k rest)
    from si have "k # rest = [k .. k + int (length rest)]"
      unfolding Cons by (rule strictly_increasing_is_upto)
    then have "ks = [k .. k + int (Suc (length rest)) - 1]"
      unfolding Cons by simp
    then have "contiguous_range k ks"
      using upto_contiguous_range [of k "Suc (length rest)"] by (simp only:)
    then show ?thesis ..
  qed
next
  assume "\<exists>lo. contiguous_range lo ks"
  then obtain lo where "contiguous_range lo ks" ..
  with assms have "ks = [lo .. lo + int (length ks) - 1]"
    by (rule contiguous_range_upto)
  then obtain j where "ks = [lo .. j]" ..
  then show "strictly_increasing ks"
    by (simp only: strictly_increasing_upto)
qed


lemma contiguous_range_mset:
  assumes "mset ks = mset ks'"
  shows "contiguous_range lo ks = contiguous_range lo ks'"
proof -
  from assms have "distinct ks = distinct ks'" by (rule mset_eq_imp_distinct_iff)
  moreover from assms have "set ks = set ks'" by (rule mset_eq_setD)
  moreover from assms have "length ks = length ks'" by (rule mset_eq_length)
  ultimately show ?thesis by (simp only: contiguous_range_def)
qed

lemma sorted_indices_contiguous:
  "contiguous_range lo (map sequence_index (sort_key sequence_index chunks)) =
     contiguous_range lo (map sequence_index chunks)"
  by (rule contiguous_range_mset) simp

lemma find_unique:
  "distinct (map f cs) \<Longrightarrow> x \<in> set cs \<Longrightarrow> find (\<lambda>c. f c = f x) cs = Some x"
  by (induction cs) (auto simp: image_iff)

lemma delta_at_unique:
  "distinct (map sequence_index cs) \<Longrightarrow> x \<in> set cs \<Longrightarrow> delta_at cs (sequence_index x) = delta x"
  by (simp add: delta_at_def find_unique)

lemma aggregate_contiguous:
  assumes c: "contiguous_range lo (map sequence_index chunks)"
  shows "aggregate mgr json_schema chunks =
           check_schema mgr json_schema
             (concat (map (delta_at chunks) [lo .. lo + int (length chunks) - 1]))"
proof -
  define xs where "xs = sort_key sequence_index chunks"
  define ks where "ks = map sequence_index xs"
  have sorted: "sorted ks"
    unfolding ks_def xs_def by (rule sorted_sort_key)
  have cs: "contiguous_range lo ks"
    using c unfolding ks_def xs_def by (simp only: sorted_indices_contiguous)
  then have si: "strictly_increasing ks"
    using strictly_increasing_iff [OF sorted] by blast
  have len: "length ks = length chunks"
    by (simp add: ks_def xs_def)
  have ks: "ks = [lo .. lo + int (length chunks) - 1]"
    using contiguous_range_upto [OF sorted cs] by (simp only: len)
  have d: "distinct (map sequence_index chunks)"
    using c by (simp add: contiguous_range_def)
  have "delta x = delta_at chunks (sequence_index x)" if "x \<in> set xs" for x
    using that d by (simp add: xs_def delta_at_unique)
  then have "map delta xs = map (delta_at chunks) ks"
    by (simp add: ks_def)
  then have "concat (map delta xs) =
               concat (map (delta_at chunks) [lo .. lo + int (length chunks) - 1])"
    by (simp only: ks)
  moreover have "aggregate mgr json_schema chunks =
                   (if strictly_increasing ks then check_schema mgr json_schema (concat (map delta xs))
                    else Inl StreamOrderingError)"
    by (simp add: aggregate_def ks_def xs_def)
  ultimately show ?thesis
    using si by simp
qed

lemma aggregate_not_contiguous:
  assumes "\<And>lo. \<not> contiguous_range lo (map sequence_index chunks)"
  shows "aggregate mgr json_schema chunks = Inl StreamOrderingError"
proof -
  define ks where "ks = map sequence_index (sort_key sequence_index chunks)"
  have sorted: "sorted ks"
    unfolding ks_def by (rule sorted_sort_key)
  have "\<not> contiguous_range lo ks" for lo
    using assms [of lo] unfolding ks_def by (simp add: sorted_indices_contiguous)
  then have "\<not> strictly_increasing ks"
    using strictly_increasing_iff [OF sorted] by blast
  then show ?thesis
    by (simp add: aggregate_def ks_def)
qed

lemma filter_unique_index:
  "distinct (map sequence_index ys) \<Longrightarrow> k \<in> set ys \<Longrightarrow>
     filter (\<lambda>x. sequence_index k = sequence_index x) ys = [k]"
proof (induction ys)
  case Nil
  then show ?case by simp
next
  case (Cons y ys)
  show ?case
  proof (cases "k = y")
    case True
    with Cons.prems have "sequence_index k \<notin> sequence_index ` set ys" by simp
    then have "filter (\<lambda>x. sequence_index k = sequence_index x) ys = []"
      by (auto simp: filter_empty_conv)
    with True show ?thesis by simp
  next
    case False
    with Cons.prems have k: "k \<in> set ys" and d: "distinct (map sequence_index ys)"
      and y: "sequence_index y \<notin> sequence_index ` set ys" by simp_all
    from k have "sequence_index k \<in> sequence_index ` set ys" by (rule imageI)
    with y have "sequence_index k \<noteq> sequence_index y" by auto
    with Cons.IH [OF d k] show ?thesis by simp
  qed
qed

lemma sort_key_permutation:
  assumes d: "distinct (map sequence_index chunks)"
    and p: "mset arrival = mset chunks"
  shows "sort_key sequence_index arrival = sort_key sequence_index chunks"
proof (rule properties_for_sort_key)
  show "mset (sort_key sequence_index chunks) = mset arrival"
    using p by simp
  show "sorted (map sequence_index (sort_key sequence_index chunks))"
    by (rule sorted_sort_key)
  fix k assume k: "k \<in> set (sort_key sequence_index chunks)"
  then have kc: "k \<in> set chunks" by simp
  from p have "mset (map sequence_index arrival) = mset (map sequence_index chunks)"
    by simp
  then have "distinct (map sequence_index arrival) = distinct (map sequence_index chunks)"
    by (rule mset_eq_imp_distinct_iff)
  with d have da: "distinct (map sequence_index arrival)" by simp
  from p have "set arrival = set chunks" by (rule mset_eq_setD)
  with kc have ka: "k \<in> set arrival" by simp
  have "mset (map sequence_index (sort_key sequence_index chunks)) =
          mset (map sequence_index chunks)"
    by simp
  then have "distinct (map sequence_index (sort_key sequence_index chunks)) =
               distinct (map sequence_index chunks)"
    by (rule mset_eq_imp_distinct_iff)
  with d have ds: "distinct (map sequence_index (sort_key sequence_index chunks))" by simp
  show "filter (\<lambda>x. sequence_index k = sequence_index x) (sort_key sequence_index chunks) =
          filter (\<lambda>x. sequence_index k = sequence_index x) arrival"
    by (simp only: filter_unique_index [OF ds k] filter_unique_index [OF da ka])
qed

lemma aggregate_permutation:
  assumes p: "mset arrival = mset chunks"
  shows "aggregate mgr json_schema arrival = aggregate mgr json_schema chunks"
proof (cases "distinct (map sequence_index chunks)")
  case True
  then have "sort_key sequence_index arrival = sort_key sequence_index chunks"
    using p by (rule sort_key_permutation)
  then show ?thesis
    by (simp only: aggregate_def)
next
  case False
  from p have "mset (map sequence_index arrival) = mset (map sequence_index chunks)"
    by simp
  then have "distinct (map sequence_index arrival) = distinct (map sequence_index chunks)"
    by (rule mset_eq_imp_distinct_iff)
  with False have "\<not> distinct (map sequence_index arrival)" by simp
  then have "aggregate mgr json_schema arrival = Inl StreamOrderingError"
    by (intro aggregate_not_contiguous) (simp add: contiguous_range_def)
  moreover from False have "aggregate mgr json_schema chunks = Inl StreamOrderingError"
    by (intro aggregate_not_contiguous) (simp add: contiguous_range_def)
  ultimately show ?thesis by simp
qed

text \<open>
  Claim C2. If the \<open>sequence_index\<close> values of the chunks form a contiguous,
  duplicate-free range starting at \<open>lo\<close>, \<open>aggregate\<close> returns the concatenation of the
  \<open>delta\<close> fields taken in index order \<open>lo, lo + 1, ...\<close>, and every arrival order of
  the same chunks aggregates to the same result. If the indices form no such range (there
  is a gap or a duplicate), \<open>aggregate\<close> fails with StreamOrderingError.
\<close>
theorem aggregate_reorders_and_validates:
  "(contiguous_range lo (map sequence_index chunks) \<longrightarrow>
      aggregate mgr None chunks =
        Inr (Text (concat (map (delta_at chunks) [lo .. lo + int (length chunks) - 1]))) \<and>
      (\<forall>arrival. mset arrival = mset chunks \<longrightarrow>
         aggregate mgr json_schema arrival = aggregate mgr json_schema chunks)) \<and>
   ((\<forall>lo'. \<not> contiguous_range lo' (map sequence_index chunks)) \<longrightarrow>
      aggregate mgr json_schema chunks = Inl StreamOrderingError)"
proof -
  have "aggregate mgr None chunks =
          Inr (Text (concat (map (delta_at chunks) [lo .. lo + int (length chunks) - 1])))"
    if "contiguous_range lo (map sequence_index chunks)"
    using aggregate_contiguous [OF that, of mgr None] by (simp add: check_schema_def)
  moreover have "aggregate mgr json_schema arrival = aggregate mgr json_schema chunks"
    if "mset arrival = mset chunks" for arrival
    using that by (rule aggregate_permutation)
  moreover have "aggregate mgr json_schema chunks = Inl StreamOrderingError"
    if "\<forall>lo'. \<not> contiguous_range lo' (map sequence_index chunks)"
    using that by (intro aggregate_not_contiguous) simp
  ultimately show ?thesis by blast
qed




text \<open>
  The theorem at three chunks that arrive as 2, 0, 1, at the same chunks in order, and at a
  stream whose index 1 is missing.
\<close>
theorem aggregate_reorders_and_validates_witness:
  "aggregate \<lparr>registry = [], retry_bound = 3, parse_json = (\<lambda>t. None :: unit option),
              validates = (\<lambda>(s :: unit) v. False)\<rparr> None
     [\<lparr>sequence_index = 2, delta = ''!'', is_final = True\<rparr>,
      \<lparr>sequence_index = 0, delta = ''Hel'', is_final = False\<rparr>,
      \<lparr>sequence_index = 1, delta = ''lo'', is_final = False\<rparr>] = Inr (Text ''Hello!'') \<and>
   aggregate \<lparr>registry = [], retry_bound = 3, parse_json = (\<lambda>t. None :: unit option),
              validates = (\<lambda>(s :: unit) v. False)\<rparr> None
     [\<lparr>sequence_index = 0, delta = ''Hel'', is_final = False\<rparr>,
      \<lparr>sequence_index = 1, delta = ''lo'', is_final = False\<rparr>,
      \<lparr>sequence_index = 2, delta = ''!'', is_final = True\<rparr>] =
   aggregate \<lparr>registry = [], retry_bound = 3, parse_json = (\<lambda>t. None :: unit option),
              validates = (\<lambda>(s :: unit) v. False)\<rparr> None
     [\<lparr>sequence_index = 2, delta = ''!'', is_final = True\<rparr>,
      \<lparr>sequence_index = 0, delta = ''Hel'', is_final = False\<rparr>,
      \<lparr>sequence_index = 1, delta = ''lo'', is_final = False\<rparr>] \<and>
   aggregate \<lparr>registry = [], retry_bound = 3, parse_json = (\<lambda>t. None :: unit option),
              validates = (\<lambda>(s :: unit) v. False)\<rparr> None
     [\<lparr>sequence_index = 0, delta = ''Hel'', is_final = False\<rparr>,
      \<lparr>sequence_index = 2, delta = ''!'', is_final = True\<rparr>] = Inl StreamOrderingError"
proof -
  let ?mgr = "\<lparr>registry = [], retry_bound = 3, parse_json = (\<lambda>t. None :: unit option),
               validates = (\<lambda>(s :: unit) v. False)\<rparr>"
  let ?c0 = "\<lparr>sequence_index = 0, delta = ''Hel'', is_final = False\<rparr>"
  let ?c1 = "\<lparr>sequence_index = 1, delta = ''lo'', is_final = False\<rparr>"
  let ?c2 = "\<lparr>sequence_index = 2, delta = ''!'', is_final = True\<rparr>"
  have set3: "{0 ..< 3 :: int} = {2, 0, 1}" by auto
  have rng: "contiguous_range 0 (map sequence_index [?c2, ?c0, ?c1])"
    by (simp add: contiguous_range_def set3)
  have perm: "mset [?c0, ?c1, ?c2] = mset [?c2, ?c0, ?c1]"
    by simp
  have gap: "\<forall>lo'. \<not> contiguous_range lo' (map sequence_index [?c0, ?c2])"
  proof (intro allI notI)
    fix lo' assume "contiguous_range lo' (map sequence_index [?c0, ?c2])"
    then have s: "{0, 2} = {lo' ..< lo' + 2}"
      by (simp add: contiguous_range_def)
    have "(0::int) \<in> {0, 2}" and "(2::int) \<in> {0, 2}" by simp_all
    then have "0 \<in> {lo' ..< lo' + 2}" and "2 \<in> {lo' ..< lo' + 2}"
      unfolding s by blast+
    then show False by simp
  qed
  have up: "[0 .. 0 + int (length [?c2, ?c0, ?c1]) - 1] = [0, 1, 2]"
    by (simp add: upto.simps)
  have joined: "concat (map (delta_at [?c2, ?c0, ?c1]) [0, 1, 2]) = ''Hello!''"
    by (simp add: delta_at_def)
  note shuffled = aggregate_reorders_and_validates [of 0 "[?c2, ?c0, ?c1]" ?mgr None,
    THEN conjunct1, THEN mp, OF rng]
  have a: "aggregate ?mgr None [?c2, ?c0, ?c1] = Inr (Text ''Hello!'')"
    using shuffled [THEN conjunct1] by (simp only: up joined)
  note b = shuffled [THEN conjunct2, THEN spec, THEN mp, OF perm]
  note c = aggregate_reorders_and_validates [of 0 "[?c0, ?c2]" ?mgr None,
    THEN conjunct2, THEN mp, OF gap]
  show ?thesis
    by (rule conjI [OF a conjI [OF b c]])
qed

subsection \<open>Request Executor and Query Manager\<close>

lemma execute_payload:
  "script b w (calls b) = Payload t \<Longrightarrow>
     execute (Suc n) w b = (Inr (Raw t), b\<lparr>calls := calls b + 1\<rparr>)"
  by (simp add: attempt_def)

lemma execute_partials:
  "script b w (calls b) = Partials cs \<Longrightarrow>
     execute (Suc n) w b = (Inr (Chunks cs), b\<lparr>calls := calls b + 1\<rparr>)"
  by (simp add: attempt_def)

lemma execute_client:
  "script b w (calls b) = ClientFailure \<Longrightarrow>
     execute (Suc n) w b = (Inl ClientError, b\<lparr>calls := calls b + 1\<rparr>)"
  by (simp add: attempt_def)

lemma delivered_cases:
  "delivered x = Some r \<Longrightarrow>
     (\<exists>t. x = Payload t \<and> r = Raw t) \<or> (\<exists>cs. x = Partials cs \<and> r = Chunks cs)"
  by (cases x) (simp_all add: delivered_def)

lemma execute_first_delivered:
  assumes "delivered (script b w (calls b)) = Some r"
  shows "execute (Suc n) w b = (Inr r, b\<lparr>calls := calls b + 1\<rparr>)"
  using delivered_cases [OF assms] execute_payload [of b w _ n] execute_partials [of b w _ n]
  by blast

lemma execute_retries:
  "(\<And>k. k < j \<Longrightarrow> transient (script b w (calls b + k))) \<Longrightarrow>
     execute (j + n) w b = execute n w (b\<lparr>calls := calls b + j\<rparr>)"
proof (induction j arbitrary: b)
  case 0
  show ?case by simp
next
  case (Suc j)
  let ?b' = "b\<lparr>calls := calls b + 1\<rparr>"
  have first: "transient (script b w (calls b))"
    using Suc.prems [of 0] by simp
  have later: "transient (script ?b' w (calls ?b' + k))" if "k < j" for k
    using Suc.prems [of "Suc k"] that by simp
  have "execute (Suc j + n) w b = execute (j + n) w ?b'"
    using first by (auto simp: attempt_def transient_def)
  also have "\<dots> = execute n w (?b'\<lparr>calls := calls ?b' + j\<rparr>)"
    using later by (rule Suc.IH)
  finally show ?case by simp
qed

lemma execute_exhausted:
  assumes "\<And>k. k < n \<Longrightarrow> transient (script b w (calls b + k))"
  shows "execute n w b = (Inl TransientBackendError, b\<lparr>calls := calls b + n\<rparr>)"
  using execute_retries [of n b w 0] assms by simp

lemma execute_delivered:
  assumes t: "\<And>k. k < j \<Longrightarrow> transient (script b w (calls b + k))"
    and j: "j < n"
    and d: "delivered (script b w (calls b + j)) = Some r"
  shows "execute n w b = (Inr r, b\<lparr>calls := calls b + j + 1\<rparr>)"
proof -
  define b' where "b' = b\<lparr>calls := calls b + j\<rparr>"
  define n' where "n' = n - Suc j"
  have n: "n = j + Suc n'"
    using j by (simp add: n'_def)
  have "execute (j + Suc n') w b = execute (Suc n') w b'"
    unfolding b'_def using t by (rule execute_retries)
  moreover have "delivered (script b' w (calls b')) = Some r"
    using d by (simp add: b'_def)
  then have "execute (Suc n') w b' = (Inr r, b'\<lparr>calls := calls b' + 1\<rparr>)"
    by (rule execute_first_delivered)
  moreover have "b'\<lparr>calls := calls b' + 1\<rparr> = b\<lparr>calls := calls b + j + 1\<rparr>"
    by (simp add: b'_def)
  ultimately show ?thesis
    by (simp only: n)
qed

lemma execute_client_failure:
  assumes t: "\<And>k. k < j \<Longrightarrow> transient (script b w (calls b + k))"
    and j: "j < n"
    and c: "script b w (calls b + j) = ClientFailure"
  shows "execute n w b = (Inl ClientError, b\<lparr>calls := calls b + j + 1\<rparr>)"
proof -
  define b' where "b' = b\<lparr>calls := calls b + j\<rparr>"
  define n' where "n' = n - Suc j"
  have n: "n = j + Suc n'"
    using j by (simp add: n'_def)
  have "execute (j + Suc n') w b = execute (Suc n') w b'"
    unfolding b'_def using t by (rule execute_retries)
  moreover have "script b' w (calls b') = ClientFailure"
    using c by (simp add: b'_def)
  then have "execute (Suc n') w b' = (Inl ClientError, b'\<lparr>calls := calls b' + 1\<rparr>)"
    by (rule execute_client)
  moreover have "b'\<lparr>calls := calls b' + 1\<rparr> = b\<lparr>calls := calls b + j + 1\<rparr>"
    by (simp add: b'_def)
  ultimately show ?thesis
    by (simp only: n)
qed

lemma run_query_unknown:
  "map_of (registry mgr) key = None \<Longrightarrow>
     run_query mgr m key messages query_name json_schema b = (Inl UnknownModelError, b)"
  by (simp add: run_query_def resolve_def)

lemma run_query_failed:
  "map_of (registry mgr) key = Some ep \<Longrightarrow>
   execute (retry_bound mgr) (build_request ep messages json_schema m) b = (Inl e, b') \<Longrightarrow>
     run_query mgr m key messages query_name json_schema b = (Inl e, b')"
  by (simp add: run_query_def resolve_def)

lemma run_query_finished:
  "map_of (registry mgr) key = Some ep \<Longrightarrow>
   execute (retry_bound mgr) (build_request ep messages json_schema m) b = (Inr r, b') \<Longrightarrow>
     run_query mgr m key messages query_name json_schema b = (finish mgr json_schema r, b')"
  by (simp add: run_query_def resolve_def)

text \<open>
  Claim C7. For a model key that is not in the registry, each of the four public operations
  fails with UnknownModelError and hands the backend back as it received it: no network
  call is attempted, the call counter keeps its value (zero if it was zero), and nothing
  is retried.
\<close>
theorem unknown_model_reaches_no_backend:
  assumes "map_of (registry mgr) key = None"
  shows "query_sync mgr key messages query_name json_schema b = (Inl UnknownModelError, b) \<and>
         query_async mgr key messages query_name json_schema b = (Inl UnknownModelError, b) \<and>
         stream_sync mgr key messages query_name json_schema b = (Inl UnknownModelError, b) \<and>
         stream_async mgr key messages query_name json_schema b = (Inl UnknownModelError, b) \<and>
         calls (snd (run_query mgr m key messages query_name json_schema b)) = calls b"
  using assms
  by (simp add: query_sync_def query_async_def stream_sync_def stream_async_def
        run_query_unknown)

text \<open>
  The theorem at the key \<open>nonexistent\<close>, on a registry that knows one other key and a
  backend that has received no call.
\<close>
theorem unknown_model_reaches_no_backend_witness:
  "fst (query_sync
          \<lparr>registry = [(''reasoning'', \<lparr>model_key = ''reasoning'', backend_url = ''https://backend'',
                          model_id = ''llama'', default_params = []\<rparr>)],
           retry_bound = 3, parse_json = (\<lambda>t. None :: unit option),
           validates = (\<lambda>(s :: unit) v. False)\<rparr>
          ''nonexistent'' [(''user'', ''hello'')] ''test_sync'' None
          \<lparr>script = (\<lambda>w k. Payload ''hi''), calls = 0\<rparr>) = Inl UnknownModelError \<and>
   calls (snd (stream_async
          \<lparr>registry = [(''reasoning'', \<lparr>model_key = ''reasoning'', backend_url = ''https://backend'',
                          model_id = ''llama'', default_params = []\<rparr>)],
           retry_bound = 3, parse_json = (\<lambda>t. None :: unit option),
           validates = (\<lambda>(s :: unit) v. False)\<rparr>
          ''nonexistent'' [(''user'', ''hello'')] ''test_stream_async'' None
          \<lparr>script = (\<lambda>w k. Payload ''hi''), calls = 0\<rparr>)) = 0"
proof -
  let ?mgr = "\<lparr>registry = [(''reasoning'', \<lparr>model_key = ''reasoning'',
                 backend_url = ''https://backend'', model_id = ''llama'', default_params = []\<rparr>)],
               retry_bound = 3, parse_json = (\<lambda>t. None :: unit option),
               validates = (\<lambda>(s :: unit) v. False)\<rparr>"
  let ?b = "\<lparr>script = (\<lambda>(w :: unit wire_request) k. Payload ''hi''), calls = 0\<rparr>"
  have absent: "map_of (registry ?mgr) ''nonexistent'' = None"
    by simp
  note sync = unknown_model_reaches_no_backend [OF absent, of "[(''user'', ''hello'')]"
    "''test_sync''" None ?b, THEN conjunct1]
  note async = unknown_model_reaches_no_backend [OF absent, of "[(''user'', ''hello'')]"
    "''test_stream_async''" None ?b, THEN conjunct2, THEN conjunct2, THEN conjunct2,
    THEN conjunct1]
  have "fst (query_sync ?mgr ''nonexistent'' [(''user'', ''hello'')] ''test_sync'' None ?b) =
          Inl UnknownModelError"
    by (simp only: sync fst_conv)
  moreover have
    "calls (snd (stream_async ?mgr ''nonexistent'' [(''user'', ''hello'')] ''test_stream_async''
       None ?b)) = 0"
    by (simp only: async snd_conv) simp
  ultimately show ?thesis by (rule conjI)
qed

text \<open>
  Claim C3. Let \<open>N\<close> be the configured retry bound of a call whose model key resolves.
  If the backend fails transiently \<open>N - 1\<close> times and then answers, the call returns what
  the answer yields, after \<open>N\<close> attempts; for a plain payload and no schema that is the
  success \<open>Text\<close>. If the backend fails transiently \<open>N\<close> times the call raises
  TransientBackendError, after \<open>N\<close> attempts. A client failure and a schema violation
  are not retried: the attempt that meets the one or that brings the violating answer is the
  last, so that either is surfaced after exactly one attempt when it comes first (\<open>j = 0\<close>).
\<close>
theorem retry_bound_policy:
  assumes ep: "map_of (registry mgr) key = Some ep"
    and w: "w = build_request ep messages json_schema m"
    and N: "N = retry_bound mgr"
  shows
    "(0 < N \<and> (\<forall>k<N - 1. transient (script b w (calls b + k))) \<and>
        delivered (script b w (calls b + (N - 1))) = Some r \<longrightarrow>
        run_query mgr m key messages query_name json_schema b =
          (finish mgr json_schema r, b\<lparr>calls := calls b + N\<rparr>)) \<and>
     (0 < N \<and> (\<forall>k<N - 1. transient (script b w (calls b + k))) \<and>
        script b w (calls b + (N - 1)) = Payload reply \<and> json_schema = None \<longrightarrow>
        run_query mgr m key messages query_name json_schema b =
          (Inr (Text reply), b\<lparr>calls := calls b + N\<rparr>)) \<and>
     ((\<forall>k<N. transient (script b w (calls b + k))) \<longrightarrow>
        run_query mgr m key messages query_name json_schema b =
          (Inl TransientBackendError, b\<lparr>calls := calls b + N\<rparr>)) \<and>
     (j < N \<and> (\<forall>k<j. transient (script b w (calls b + k))) \<and>
        script b w (calls b + j) = ClientFailure \<longrightarrow>
        run_query mgr m key messages query_name json_schema b =
          (Inl ClientError, b\<lparr>calls := calls b + j + 1\<rparr>)) \<and>
     (j < N \<and> (\<forall>k<j. transient (script b w (calls b + k))) \<and>
        delivered (script b w (calls b + j)) = Some r \<and>
        finish mgr json_schema r = Inl SchemaViolationError \<longrightarrow>
        run_query mgr m key messages query_name json_schema b =
          (Inl SchemaViolationError, b\<lparr>calls := calls b + j + 1\<rparr>))"
proof -
  have success: "run_query mgr m key messages query_name json_schema b =
                   (finish mgr json_schema r', b\<lparr>calls := calls b + i + 1\<rparr>)"
    if i: "i < N" and t: "\<forall>k<i. transient (script b w (calls b + k))"
      and d: "delivered (script b w (calls b + i)) = Some r'" for i r'
  proof -
    have "execute N w b = (Inr r', b\<lparr>calls := calls b + i + 1\<rparr>)"
      using t i d by (intro execute_delivered) simp_all
    then show ?thesis
      unfolding w N by (rule run_query_finished [OF ep])
  qed
  have last: "calls b + (N - 1) + 1 = calls b + N" if "0 < N"
    using that by simp
  have p1: "run_query mgr m key messages query_name json_schema b =
              (finish mgr json_schema r, b\<lparr>calls := calls b + N\<rparr>)"
    if "0 < N" and "\<forall>k<N - 1. transient (script b w (calls b + k))"
      and "delivered (script b w (calls b + (N - 1))) = Some r"
    using success [of "N - 1" r] that last by simp
  have p2: "run_query mgr m key messages query_name json_schema b =
              (Inr (Text reply), b\<lparr>calls := calls b + N\<rparr>)"
    if "0 < N" and "\<forall>k<N - 1. transient (script b w (calls b + k))"
      and "script b w (calls b + (N - 1)) = Payload reply" and "json_schema = None"
    using success [of "N - 1" "Raw reply"] that last
    by (simp add: delivered_def finish_def check_schema_def)
  have p3: "run_query mgr m key messages query_name json_schema b =
              (Inl TransientBackendError, b\<lparr>calls := calls b + N\<rparr>)"
    if t: "\<forall>k<N. transient (script b w (calls b + k))"
  proof -
    have "execute N w b = (Inl TransientBackendError, b\<lparr>calls := calls b + N\<rparr>)"
      using t by (intro execute_exhausted) simp
    then show ?thesis
      unfolding w N by (rule run_query_failed [OF ep])
  qed
  have p4: "run_query mgr m key messages query_name json_schema b =
              (Inl ClientError, b\<lparr>calls := calls b + j + 1\<rparr>)"
    if i: "j < N" and t: "\<forall>k<j. transient (script b w (calls b + k))"
      and c: "script b w (calls b + j) = ClientFailure"
  proof -
    have "execute N w b = (Inl ClientError, b\<lparr>calls := calls b + j + 1\<rparr>)"
      using t i c by (intro execute_client_failure) simp_all
    then show ?thesis
      unfolding w N by (rule run_query_failed [OF ep])
  qed
  have p5: "run_query mgr m key messages query_name json_schema b =
              (Inl SchemaViolationError, b\<lparr>calls := calls b + j + 1\<rparr>)"
    if "j < N" and "\<forall>k<j. transient (script b w (calls b + k))"
      and "delivered (script b w (calls b + j)) = Some r"
      and "finish mgr json_schema r = Inl SchemaViolationError"
    using success [of j r] that by simp
  show ?thesis
    by (intro conjI impI; (elim conjE)?; (rule p1 p2 p3 p4 p5; assumption))
qed

text \<open>
  The theorem at retry bound three: two timeouts and then a payload, server failures
  throughout, a client failure at once, and a payload that violates the schema at once.
\<close>
theorem retry_bound_policy_witness:
  "fst (run_query
          \<lparr>registry = [(''reasoning'', \<lparr>model_key = ''reasoning'', backend_url = ''https://backend'',
                          model_id = ''llama'', default_params = []\<rparr>)],
           retry_bound = 3, parse_json = (\<lambda>t. None :: unit option),
           validates = (\<lambda>(s :: unit) v. False)\<rparr>
          Sync ''reasoning'' [(''user'', ''hello'')] ''test_sync'' None
          \<lparr>script = (\<lambda>w k. if k < 2 then Timeout else Payload ''ok''), calls = 0\<rparr>) = Inr (Text ''ok'') \<and>
   calls (snd (run_query
          \<lparr>registry = [(''reasoning'', \<lparr>model_key = ''reasoning'', backend_url = ''https://backend'',
                          model_id = ''llama'', default_params = []\<rparr>)],
           retry_bound = 3, parse_json = (\<lambda>t. None :: unit option),
           validates = (\<lambda>(s :: unit) v. False)\<rparr>
          Sync ''reasoning'' [(''user'', ''hello'')] ''test_sync'' None
          \<lparr>script = (\<lambda>w k. if k < 2 then Timeout else Payload ''ok''), calls = 0\<rparr>)) = 3 \<and>
   fst (run_query
          \<lparr>registry = [(''reasoning'', \<lparr>model_key = ''reasoning'', backend_url = ''https://backend'',
                          model_id = ''llama'', default_params = []\<rparr>)],
           retry_bound = 3, parse_json = (\<lambda>t. None :: unit option),
           validates = (\<lambda>(s :: unit) v. False)\<rparr>
          Sync ''reasoning'' [(''user'', ''hello'')] ''test_sync'' None
          \<lparr>script = (\<lambda>w k. ServerFailure), calls = 0\<rparr>) = Inl TransientBackendError \<and>
   calls (snd (run_query
          \<lparr>registry = [(''reasoning'', \<lparr>model_key = ''reasoning'', backend_url = ''https://backend'',
                          model_id = ''llama'', default_params = []\<rparr>)],
           retry_bound = 3, parse_json = (\<lambda>t. None :: unit option),
           validates = (\<lambda>(s :: unit) v. False)\<rparr>
          Sync ''reasoning'' [(''user'', ''hello'')] ''test_sync'' None
          \<lparr>script = (\<lambda>w k. ServerFailure), calls = 0\<rparr>)) = 3 \<and>
   fst (run_query
          \<lparr>registry = [(''reasoning'', \<lparr>model_key = ''reasoning'', backend_url = ''https://backend'',
                          model_id = ''llama'', default_params = []\<rparr>)],
           retry_bound = 3, parse_json = (\<lambda>t. None :: unit option),
           validates = (\<lambda>(s :: unit) v. False)\<rparr>
          Sync ''reasoning'' [(''user'', ''hello'')] ''test_sync'' None
          \<lparr>script = (\<lambda>w k. ClientFailure), calls = 0\<rparr>) = Inl ClientError \<and>
   calls (snd (run_query
          \<lparr>registry = [(''reasoning'', \<lparr>model_key = ''reasoning'', backend_url = ''https://backend'',
                          model_id = ''llama'', default_params = []\<rparr>)],
           retry_bound = 3, parse_json = (\<lambda>t. None :: unit option),
           validates = (\<lambda>(s :: unit) v. False)\<rparr>
          Sync ''reasoning'' [(''user'', ''hello'')] ''test_sync'' None
          \<lparr>script = (\<lambda>w k. ClientFailure), calls = 0\<rparr>)) = 1 \<and>
   fst (run_query
          \<lparr>registry = [(''reasoning'', \<lparr>model_key = ''reasoning'', backend_url = ''https://backend'',
                          model_id = ''llama'', default_params = []\<rparr>)],
           retry_bound = 3, parse_json = (\<lambda>t. None :: unit option),
           validates = (\<lambda>(s :: unit) v. False)\<rparr>
          Sync ''reasoning'' [(''user'', ''hello'')] ''test_sync'' (Some ())
          \<lparr>script = (\<lambda>w k. Payload ''oops''), calls = 0\<rparr>) = Inl SchemaViolationError \<and>
   calls (snd (run_query
          \<lparr>registry = [(''reasoning'', \<lparr>model_key = ''reasoning'', backend_url = ''https://backend'',
                          model_id = ''llama'', default_params = []\<rparr>)],
           retry_bound = 3, parse_json = (\<lambda>t. None :: unit option),
           validates = (\<lambda>(s :: unit) v. False)\<rparr>
          Sync ''reasoning'' [(''user'', ''hello'')] ''test_sync'' (Some ())
          \<lparr>script = (\<lambda>w k. Payload ''oops''), calls = 0\<rparr>)) = 1"
proof -
  let ?ep = "\<lparr>model_key = ''reasoning'', backend_url = ''https://backend'', model_id = ''llama'',
              default_params = []\<rparr>"
  let ?mgr = "\<lparr>registry = [(''reasoning'', ?ep)], retry_bound = 3,
               parse_json = (\<lambda>t. None :: unit option), validates = (\<lambda>(s :: unit) v. False)\<rparr>"
  let ?msgs = "[(''user'', ''hello'')]"
  let ?b1 = "\<lparr>script = (\<lambda>(w :: unit wire_request) k. if k < 2 then Timeout else Payload ''ok''),
              calls = 0\<rparr>"
  let ?b2 = "\<lparr>script = (\<lambda>(w :: unit wire_request) k. ServerFailure), calls = 0\<rparr>"
  let ?b3 = "\<lparr>script = (\<lambda>(w :: unit wire_request) k. ClientFailure), calls = 0\<rparr>"
  let ?b4 = "\<lparr>script = (\<lambda>(w :: unit wire_request) k. Payload ''oops''), calls = 0\<rparr>"
  have ep: "map_of (registry ?mgr) ''reasoning'' = Some ?ep"
    by simp
  have h1: "0 < retry_bound ?mgr \<and>
      (\<forall>k<retry_bound ?mgr - 1.
          transient (script ?b1 (build_request ?ep ?msgs None Sync) (calls ?b1 + k))) \<and>
      script ?b1 (build_request ?ep ?msgs None Sync) (calls ?b1 + (retry_bound ?mgr - 1)) =
        Payload ''ok'' \<and> (None :: unit option) = None"
    by (simp add: transient_def)
  have h2: "\<forall>k<retry_bound ?mgr.
      transient (script ?b2 (build_request ?ep ?msgs None Sync) (calls ?b2 + k))"
    by (simp add: transient_def)
  have h3: "0 < retry_bound ?mgr \<and>
      (\<forall>k<0. transient (script ?b3 (build_request ?ep ?msgs None Sync) (calls ?b3 + k))) \<and>
      script ?b3 (build_request ?ep ?msgs None Sync) (calls ?b3 + 0) = ClientFailure"
    by simp
  have h4: "0 < retry_bound ?mgr \<and>
      (\<forall>k<0. transient (script ?b4 (build_request ?ep ?msgs (Some ()) Sync) (calls ?b4 + k))) \<and>
      delivered (script ?b4 (build_request ?ep ?msgs (Some ()) Sync) (calls ?b4 + 0)) =
        Some (Raw ''oops'') \<and>
      finish ?mgr (Some ()) (Raw ''oops'') = Inl SchemaViolationError"
    by (simp add: delivered_def finish_def check_schema_def)
  note r1 = retry_bound_policy [OF ep refl refl, where b = ?b1 and reply = "''ok''"
    and query_name = "''test_sync''", THEN conjunct2, THEN conjunct1, THEN mp, OF h1]
  note r2 = retry_bound_policy [OF ep refl refl, where b = ?b2
    and query_name = "''test_sync''", THEN conjunct2, THEN conjunct2, THEN conjunct1, THEN mp,
    OF h2]
  note r3 = retry_bound_policy [OF ep refl refl, where b = ?b3 and j = 0
    and query_name = "''test_sync''", THEN conjunct2, THEN conjunct2, THEN conjunct2,
    THEN conjunct1, THEN mp, OF h3]
  note r4 = retry_bound_policy [OF ep refl refl, where b = ?b4 and j = 0
    and query_name = "''test_sync''", THEN conjunct2, THEN conjunct2, THEN conjunct2,
    THEN conjunct2, THEN mp, OF h4]
  have a1: "fst (run_query ?mgr Sync ''reasoning'' ?msgs ''test_sync'' None ?b1) =
              Inr (Text ''ok'')"
    by (simp only: r1 fst_conv)
  have c1: "calls (snd (run_query ?mgr Sync ''reasoning'' ?msgs ''test_sync'' None ?b1)) = 3"
    by (simp only: r1 snd_conv) simp
  have a2: "fst (run_query ?mgr Sync ''reasoning'' ?msgs ''test_sync'' None ?b2) =
              Inl TransientBackendError"
    by (simp only: r2 fst_conv)
  have c2: "calls (snd (run_query ?mgr Sync ''reasoning'' ?msgs ''test_sync'' None ?b2)) = 3"
    by (simp only: r2 snd_conv) simp
  have a3: "fst (run_query ?mgr Sync ''reasoning'' ?msgs ''test_sync'' None ?b3) =
              Inl ClientError"
    by (simp only: r3 fst_conv)
  have c3: "calls (snd (run_query ?mgr Sync ''reasoning'' ?msgs ''test_sync'' None ?b3)) = 1"
    by (simp only: r3 snd_conv) simp
  have a4: "fst (run_query ?mgr Sync ''reasoning'' ?msgs ''test_sync'' (Some ()) ?b4) =
              Inl SchemaViolationError"
    by (simp only: r4 fst_conv)
  have c4: "calls (snd (run_query ?mgr Sync ''reasoning'' ?msgs ''test_sync'' (Some ()) ?b4)) = 1"
    by (simp only: r4 snd_conv) simp
  show ?thesis
    by (intro conjI) (rule a1 c1 a2 c2 a3 c3 a4 c4)+
qed

end
